theory Spec2Isabelle
  imports Complex_Main "HOL-Library.Word"
begin

unbundle bit_operations_syntax

section \<open>Numeric model of the fragment shader\<close>

text \<open>
  The tracing core of the repository is the GLSL fragment shader embedded in
  \<^verbatim>\<open>src/main.cpp\<close> (lines 33 to 271). Its functions are embedded one by one.

  \<^item> GLSL \<^verbatim>\<open>uint\<close> is a 32-bit word: \<open>+\<close> and \<open>*\<close> wrap around.
  \<^item> GLSL \<^verbatim>\<open>float\<close> is modelled by \<^typ>\<open>real\<close>: arithmetic is exact; rounding,
    infinities and NaN are not modelled. Division and square root are the total functions
    of HOL (\<open>x / 0 = 0\<close>, \<open>sqrt (- x) = - sqrt x\<close>). Where rounding or a division of 0
    by 0 can change what a test stores, the statement is made about the runs on which the
    shader computes what the model computes; these runs are delimited in the section on
    runs that binary32 computes exactly.
  \<^item> GLSL \<^verbatim>\<open>int\<close> is \<^typ>\<open>int\<close>; no integer of the shader other than the seed can
    overflow.
  \<^item> The global \<^verbatim>\<open>seed\<close> is mutated by every call of \<^verbatim>\<open>random()\<close>; the model
    passes it explicitly: each function that draws takes the seed and returns the new one.
  \<^item> A local variable declared without initialiser, or an \<^verbatim>\<open>out\<close> parameter that is
    not written, holds an unspecified value. The model takes these values as a parameter
    (\<open>junk\<close>), so that a theorem about all parameters is a theorem about every content
    of uninitialised storage.
  \<^item> Record fields keep the source's names, except where two structs share a field name
    or the name is a single letter: \<^verbatim>\<open>HitInfo.t\<close> is \<open>hit_t\<close>, \<^verbatim>\<open>MaterialData.type\<close>
    is \<open>mat_type\<close>, \<^verbatim>\<open>ObjectData.type\<close> and \<^verbatim>\<open>ObjectData.materialIndex\<close> are
    \<open>obj_type\<close> and \<open>obj_materialIndex\<close>.
\<close>

type_synonym uint = "32 word"

datatype vec3 = vec3 (vx: real) (vy: real) (vz: real)

datatype vec4 = vec4 (wx: real) (wy: real) (wz: real) (ww: real)

datatype vec2 = vec2 (ux: real) (uy: real)

text \<open>A \<^verbatim>\<open>mat4\<close> is stored by columns: \<^verbatim>\<open>m[i]\<close> is column \<open>i\<close>.\<close>

datatype mat4 = mat4 (col0: vec4) (col1: vec4) (col2: vec4) (col3: vec4)

text \<open>The GLSL operators on \<^verbatim>\<open>vec3\<close>: componentwise \<open>+\<close>, \<open>-\<close>, \<open>*\<close>, unary minus, and
  the product of a float and a vector (written \<open>k *\<^sub>R v\<close>).\<close>

instantiation vec3 :: "{zero, plus, minus, uminus, times, scaleR}"
begin

definition zero_vec3 :: vec3 where
  "zero_vec3 = vec3 0 0 0"

definition plus_vec3 :: "vec3 \<Rightarrow> vec3 \<Rightarrow> vec3" where
  "plus_vec3 u v = vec3 (vx u + vx v) (vy u + vy v) (vz u + vz v)"

definition minus_vec3 :: "vec3 \<Rightarrow> vec3 \<Rightarrow> vec3" where
  "minus_vec3 u v = vec3 (vx u - vx v) (vy u - vy v) (vz u - vz v)"

definition uminus_vec3 :: "vec3 \<Rightarrow> vec3" where
  "uminus_vec3 u = vec3 (- vx u) (- vy u) (- vz u)"

definition times_vec3 :: "vec3 \<Rightarrow> vec3 \<Rightarrow> vec3" where
  "times_vec3 u v = vec3 (vx u * vx v) (vy u * vy v) (vz u * vz v)"

definition scaleR_vec3 :: "real \<Rightarrow> vec3 \<Rightarrow> vec3" where
  "scaleR_vec3 k u = vec3 (k * vx u) (k * vy u) (k * vz u)"

instance ..

end

definition dot :: "vec3 \<Rightarrow> vec3 \<Rightarrow> real" where
  "dot u v = vx u * vx v + vy u * vy v + vz u * vz v"

definition vlength :: "vec3 \<Rightarrow> real" where
  "vlength v = sqrt (dot v v)"

text \<open>\<^verbatim>\<open>normalize\<close>. On the zero vector the shader divides 0 by 0; the model
  returns the zero vector there, so a statement about a normalised vector is about a vector
  that is not zero.\<close>

definition normalize_vec :: "vec3 \<Rightarrow> vec3" where
  "normalize_vec v = (1 / vlength v) *\<^sub>R v"

text \<open>The swizzles \<^verbatim>\<open>.xyz\<close> and \<^verbatim>\<open>.rgb\<close> of a \<^verbatim>\<open>vec4\<close>, and the
  constructor \<^verbatim>\<open>vec3(v)\<close> of a \<^verbatim>\<open>vec4\<close>, all take the first three components.\<close>

definition xyz :: "vec4 \<Rightarrow> vec3" where
  "xyz v = vec3 (wx v) (wy v) (wz v)"

definition rgb :: "vec4 \<Rightarrow> vec3" where
  "rgb v = vec3 (wx v) (wy v) (wz v)"

text \<open>The product of a \<^verbatim>\<open>mat4\<close> and a \<^verbatim>\<open>vec4\<close>.\<close>

definition mat4_mul :: "mat4 \<Rightarrow> vec4 \<Rightarrow> vec4" where
  "mat4_mul m v =
     vec4 (wx (col0 m) * wx v + wx (col1 m) * wy v + wx (col2 m) * wz v + wx (col3 m) * ww v)
          (wy (col0 m) * wx v + wy (col1 m) * wy v + wy (col2 m) * wz v + wy (col3 m) * ww v)
          (wz (col0 m) * wx v + wz (col1 m) * wy v + wz (col2 m) * wz v + wz (col3 m) * ww v)
          (ww (col0 m) * wx v + ww (col1 m) * wy v + ww (col2 m) * wz v + ww (col3 m) * ww v)"

text \<open>The built-in \<^verbatim>\<open>mix(a, b, k)\<close> on vectors with a float weight.\<close>

definition mix :: "vec3 \<Rightarrow> vec3 \<Rightarrow> real \<Rightarrow> vec3" where
  "mix a b k = (1 - k) *\<^sub>R a + k *\<^sub>R b"

section \<open>Data structures (lines 45 to 87)\<close>

definition MAT_LAMBERTIAN :: int where "MAT_LAMBERTIAN = 0"
definition MAT_METAL :: int where "MAT_METAL = 1"
definition MAT_GLASS :: int where "MAT_GLASS = 2"
definition MAT_EMISSIVE :: int where "MAT_EMISSIVE = 3"

record MaterialData =
  baseColor :: vec4
  properties :: vec4
  emission :: vec4
  mat_type :: int

record ObjectData =
  modelMatrix :: mat4
  inverseModelMatrix :: mat4
  obj_materialIndex :: int
  obj_type :: int
  radius :: real
  halfSize :: vec3

record Ray =
  origin :: vec3
  direction :: vec3

record HitInfo =
  is_hit :: bool
  hit_t :: real
  point :: vec3
  normal :: vec3
  materialIndex :: int
  front_face :: bool

text \<open>The two storage buffers. \<^verbatim>\<open>objects[]\<close> is a sequence: the scan loop reads its
  length and every index it uses is in range. \<^verbatim>\<open>materials[]\<close> is read at an index that
  comes from the scene data, so the buffer is modelled by what a read at any index yields;
  nothing is assumed about reads outside the uploaded range.\<close>

record Scene =
  objects :: "ObjectData list"
  materials :: "int \<Rightarrow> MaterialData"

section \<open>Pseudo-random generator (lines 90 to 101)\<close>

text \<open>\<^verbatim>\<open>float random()\<close>: one linear congruential step on the 32-bit seed, and the low
  24 bits of the new seed divided by \<open>0x01000000\<close>. The result is the drawn float and the
  new seed.\<close>

definition random :: "uint \<Rightarrow> real \<times> uint" where
  "random seed =
     (let seed' = seed * 1664525 + 1013904223
      in (real (unat (seed' AND 0x00FFFFFF)) / real (0x01000000 :: nat), seed'))"

text \<open>\<^verbatim>\<open>vec3 random_in_unit_sphere()\<close>. One pass of the loop body (line 98) draws three
  values, left to right, and maps each to \<open>2u - 1\<close>.\<close>

definition draw_point :: "uint \<Rightarrow> vec3 \<times> uint" where
  "draw_point seed =
     (case random seed of (r1, s1) \<Rightarrow>
      case random s1 of (r2, s2) \<Rightarrow>
      case random s2 of (r3, s3) \<Rightarrow>
        (vec3 (r1 * 2 - 1) (r2 * 2 - 1) (r3 * 2 - 1), s3))"

text \<open>The source loops \<^verbatim>\<open>while (true)\<close> with no iteration cap and no other exit than
  the accepted sample, so the model is a partial function: \<open>None\<close> is the loop that never
  returns.\<close>

partial_function (option) random_in_unit_sphere :: "uint \<Rightarrow> (vec3 \<times> uint) option" where
  "random_in_unit_sphere seed =
     (case draw_point seed of (p, seed') \<Rightarrow>
        if dot p p < 1 then Some (p, seed') else random_in_unit_sphere seed')"

text \<open>\<^verbatim>\<open>reflect\<close> and \<^verbatim>\<open>refract\<close> (lines 103 to 112).\<close>

definition reflect :: "vec3 \<Rightarrow> vec3 \<Rightarrow> vec3" where
  "reflect v n = v - (2 * dot v n) *\<^sub>R n"

definition refract :: "vec3 \<Rightarrow> vec3 \<Rightarrow> real \<Rightarrow> vec3" where
  "refract uv n etai_over_etat =
     (let cos_theta = min (dot (- uv) n) 1;
          r_out_perp = etai_over_etat *\<^sub>R (uv + cos_theta *\<^sub>R n);
          r_out_parallel = (- sqrt \<bar>1 - dot r_out_perp r_out_perp\<bar>) *\<^sub>R n
      in r_out_perp + r_out_parallel)"

section \<open>Intersection functions (lines 115 to 158)\<close>

text \<open>The source updates the \<^verbatim>\<open>inout\<close> record in place; the model returns the updated
  record.\<close>

definition set_face_normal :: "HitInfo \<Rightarrow> Ray \<Rightarrow> vec3 \<Rightarrow> HitInfo" where
  "set_face_normal rec r outward_normal =
     (let ff = dot (direction r) outward_normal < 0
      in rec\<lparr>front_face := ff,
              normal := (if ff then outward_normal else - outward_normal)\<rparr>)"

text \<open>\<^verbatim>\<open>intersect_sphere\<close> and \<^verbatim>\<open>intersect_plane\<close> take the object read from
  \<^verbatim>\<open>objects[object_index]\<close>; the scan loop is their only caller and its index is in
  range. The source's local \<^verbatim>\<open>t\<close> is assigned twice in the sphere test: \<open>t0\<close> is its
  first value, \<open>t1\<close> its value after the fallback to the larger root.\<close>

definition intersect_sphere :: "Ray \<Rightarrow> HitInfo \<Rightarrow> ObjectData \<Rightarrow> HitInfo" where
  "intersect_sphere r hit_rec obj =
     (let oc = origin r - xyz (col3 (modelMatrix obj));
          a = dot (direction r) (direction r);
          b = dot oc (direction r);
          c = dot oc oc - radius obj * radius obj;
          discriminant = b * b - a * c
      in if discriminant \<ge> 0 then
           let t0 = (- b - sqrt discriminant) / a;
               t1 = (if t0 < 0.001 then (- b + sqrt discriminant) / a else t0)
           in if t1 > 0.001 \<and> t1 < hit_t hit_rec then
                let p = origin r + t1 *\<^sub>R direction r;
                    outward_normal = normalize_vec (p - xyz (col3 (modelMatrix obj)))
                in (set_face_normal (hit_rec\<lparr>is_hit := True, hit_t := t1, point := p\<rparr>)
                      r outward_normal)\<lparr>materialIndex := obj_materialIndex obj\<rparr>
              else hit_rec
         else hit_rec)"

definition intersect_plane :: "Ray \<Rightarrow> HitInfo \<Rightarrow> ObjectData \<Rightarrow> HitInfo" where
  "intersect_plane r hit_rec obj =
     (let plane_normal = normalize_vec (xyz (mat4_mul (modelMatrix obj) (vec4 0 1 0 0)));
          plane_point = xyz (col3 (modelMatrix obj));
          denom = dot plane_normal (direction r)
      in if \<bar>denom\<bar> > 0.001 then
           let t1 = dot (plane_point - origin r) plane_normal / denom
           in if t1 > 0.001 \<and> t1 < hit_t hit_rec then
                (set_face_normal
                   (hit_rec\<lparr>is_hit := True, hit_t := t1,
                            point := origin r + t1 *\<^sub>R direction r\<rparr>)
                   r plane_normal)\<lparr>materialIndex := obj_materialIndex obj\<rparr>
              else hit_rec
         else hit_rec)"

text \<open>The same plane test with its one division made observable. A GLSL float division
  never traps, so to state that the division is only reached outside the guard band, the
  division is routed through \<open>guarded_div\<close>, which reports \<open>DivisionNearZero\<close> when the
  magnitude of its divisor is at most \<open>0.001\<close>. Everything else is as in
  \<open>intersect_plane\<close>.\<close>

datatype error = DivisionNearZero

definition guarded_div :: "real \<Rightarrow> real \<Rightarrow> error + real" where
  "guarded_div n d = (if \<bar>d\<bar> \<le> 0.001 then Inl DivisionNearZero else Inr (n / d))"

definition intersect_plane_checked :: "Ray \<Rightarrow> HitInfo \<Rightarrow> ObjectData \<Rightarrow> error + HitInfo" where
  "intersect_plane_checked r hit_rec obj =
     (let plane_normal = normalize_vec (xyz (mat4_mul (modelMatrix obj) (vec4 0 1 0 0)));
          plane_point = xyz (col3 (modelMatrix obj));
          denom = dot plane_normal (direction r)
      in if \<bar>denom\<bar> > 0.001 then
           (case guarded_div (dot (plane_point - origin r) plane_normal) denom of
              Inl e \<Rightarrow> Inl e
            | Inr t1 \<Rightarrow>
                if t1 > 0.001 \<and> t1 < hit_t hit_rec then
                  Inr ((set_face_normal
                          (hit_rec\<lparr>is_hit := True, hit_t := t1,
                                   point := origin r + t1 *\<^sub>R direction r\<rparr>)
                          r plane_normal)\<lparr>materialIndex := obj_materialIndex obj\<rparr>)
                else Inr hit_rec)
         else Inr hit_rec)"

section \<open>Material logic (lines 161 to 200)\<close>

text \<open>Storage without a defined content: the hit record that \<^verbatim>\<open>trace\<close> declares without
  initialiser, and the \<^verbatim>\<open>out\<close> parameter \<^verbatim>\<open>scattered\<close> on the path of \<^verbatim>\<open>scatter\<close>
  that does not write it.\<close>

record uninitialised =
  junk_hit :: HitInfo
  junk_ray :: Ray

text \<open>\<^verbatim>\<open>scatter\<close> returns its \<^verbatim>\<open>bool\<close>, the two \<^verbatim>\<open>out\<close> parameters
  \<^verbatim>\<open>attenuation\<close> and \<^verbatim>\<open>scattered\<close>, and the new seed. \<open>None\<close> is a call of
  \<open>random_in_unit_sphere\<close> that does not return. In the glass branch \<^verbatim>\<open>||\<close> evaluates
  its right operand, and so draws, only when the left one is false. \<^verbatim>\<open>pow(x, 5.0)\<close> is
  applied to \<open>1 - cos_theta\<close>, which is never negative, and is the fifth power.\<close>

definition scatter ::
  "(int \<Rightarrow> MaterialData) \<Rightarrow> uninitialised \<Rightarrow> Ray \<Rightarrow> HitInfo \<Rightarrow> uint
     \<Rightarrow> ((bool \<times> vec3 \<times> Ray) \<times> uint) option" where
  "scatter mats junk r_in rec seed =
     (let mat = mats (materialIndex rec);
          attenuation = rgb (baseColor mat)
      in if mat_type mat = MAT_LAMBERTIAN then
           (case random_in_unit_sphere seed of
              None \<Rightarrow> None
            | Some (p, seed') \<Rightarrow>
                let scatter_direction = normal rec + p;
                    scatter_direction' =
                      (if vlength scatter_direction < 0.001 then normal rec
                       else scatter_direction)
                in Some ((True, attenuation,
                          \<lparr>origin = point rec, direction = normalize_vec scatter_direction'\<rparr>),
                         seed'))
         else if mat_type mat = MAT_METAL then
           (let reflected = reflect (direction r_in) (normal rec)
            in case random_in_unit_sphere seed of
                 None \<Rightarrow> None
               | Some (p, seed') \<Rightarrow>
                   let scattered =
                         \<lparr>origin = point rec,
                          direction = normalize_vec (reflected + wy (properties mat) *\<^sub>R p)\<rparr>
                   in Some ((dot (direction scattered) (normal rec) > 0, attenuation, scattered),
                            seed'))
         else if mat_type mat = MAT_GLASS then
           (let refraction_ratio =
                  (if front_face rec then 1 / wz (properties mat) else wz (properties mat));
                cos_theta = min (dot (- direction r_in) (normal rec)) 1;
                sin_theta = sqrt (1 - cos_theta * cos_theta);
                cannot_refract = (refraction_ratio * sin_theta > 1);
                r0 = (1 - refraction_ratio) / (1 + refraction_ratio);
                r0' = r0 * r0;
                reflectance = r0' + (1 - r0') * (1 - cos_theta) ^ 5;
                (dir, seed') =
                  (if cannot_refract then (reflect (direction r_in) (normal rec), seed)
                   else case random seed of (u, s) \<Rightarrow>
                     if reflectance > u then (reflect (direction r_in) (normal rec), s)
                     else (refract (direction r_in) (normal rec) refraction_ratio, s))
            in Some ((True, attenuation,
                      \<lparr>origin = point rec, direction = normalize_vec dir\<rparr>), seed'))
         else Some ((False, attenuation, junk_ray junk), seed))"

section \<open>Main tracing function (lines 204 to 245)\<close>

text \<open>The scan over all objects (lines 214 to 220).\<close>

fun scan_objects :: "ObjectData list \<Rightarrow> Ray \<Rightarrow> HitInfo \<Rightarrow> HitInfo" where
  "scan_objects [] r hit_rec = hit_rec"
| "scan_objects (obj # objs) r hit_rec =
     scan_objects objs r
       (if obj_type obj = 0 then intersect_sphere r hit_rec obj
        else if obj_type obj = 2 then intersect_plane r hit_rec obj
        else hit_rec)"

text \<open>One pass of the body of the bounce loop (lines 210 to 242). It ends either by
  falling through to the next iteration, with the new values of \<^verbatim>\<open>r\<close>,
  \<^verbatim>\<open>final_color\<close>, \<^verbatim>\<open>attenuation\<close> and the seed, or by \<^verbatim>\<open>break\<close>, after which only
  \<^verbatim>\<open>final_color\<close> and the seed are read.\<close>

datatype loop_step = Continue Ray vec3 vec3 uint | Break vec3 uint

definition MAX_DEPTH :: int where
  "MAX_DEPTH = 8"

definition trace_body ::
  "Scene \<Rightarrow> uninitialised \<Rightarrow> Ray \<Rightarrow> vec3 \<Rightarrow> vec3 \<Rightarrow> uint \<Rightarrow> loop_step option" where
  "trace_body sc junk r final_color attenuation seed =
     (let hit_rec = scan_objects (objects sc) r
                      ((junk_hit junk)\<lparr>is_hit := False, hit_t := 10000\<rparr>)
      in if is_hit hit_rec then
           (let mat = materials sc (materialIndex hit_rec);
                emitted = rgb (emission mat)
            in case scatter (materials sc) junk r hit_rec seed of
                 None \<Rightarrow> None
               | Some ((did_scatter, current_attenuation, scattered), seed') \<Rightarrow>
                   if did_scatter then
                     (let attenuation' = attenuation * current_attenuation
                      in Some (Continue scattered (final_color + emitted * attenuation')
                                 attenuation' seed'))
                   else Some (Break (final_color + emitted * attenuation) seed'))
         else
           (let k = 0.5 * (vy (direction r) + 1)
            in Some (Break (final_color + mix (vec3 1 1 1) (vec3 0.5 0.7 1) k * attenuation)
                       seed)))"

text \<open>The bounce loop. \<open>iters\<close> is a ghost counter that the source does not have: the
  number of passes of the loop body made so far.\<close>

function trace_loop ::
  "Scene \<Rightarrow> uninitialised \<Rightarrow> int \<Rightarrow> Ray \<Rightarrow> vec3 \<Rightarrow> vec3 \<Rightarrow> uint \<Rightarrow> nat
     \<Rightarrow> (vec3 \<times> uint \<times> nat) option" where
  "trace_loop sc junk depth r final_color attenuation seed iters =
     (if depth < MAX_DEPTH then
        (case trace_body sc junk r final_color attenuation seed of
           None \<Rightarrow> None
         | Some (Break final_color' seed') \<Rightarrow> Some (final_color', seed', iters + 1)
         | Some (Continue r' final_color' attenuation' seed') \<Rightarrow>
             trace_loop sc junk (depth + 1) r' final_color' attenuation' seed' (iters + 1))
      else Some (final_color, seed, iters))"
  by pat_completeness auto
termination
  by (relation "measure (\<lambda>(sc, junk, depth, r, final_color, attenuation, seed, iters).
        nat (MAX_DEPTH - depth))") auto

declare trace_loop.simps [simp del]

text \<open>\<^verbatim>\<open>vec3 trace(Ray r)\<close>: the returned colour, with the seed it leaves and the ghost
  count of loop passes.\<close>

definition trace :: "Scene \<Rightarrow> uninitialised \<Rightarrow> Ray \<Rightarrow> uint \<Rightarrow> (vec3 \<times> uint \<times> nat) option" where
  "trace sc junk r seed = trace_loop sc junk 0 r (vec3 0 0 0) (vec3 1 1 1) seed 0"

section \<open>Seed derivation and \<^verbatim>\<open>main\<close> (lines 90 and 247 to 270)\<close>

text \<open>The conversion \<^verbatim>\<open>uint(f)\<close> drops the fractional part. GLSL defines it for
  \<open>0 \<le> f < 2^32\<close> only; the model takes the floor and wraps.\<close>

definition uint_of_float :: "real \<Rightarrow> uint" where
  "uint_of_float f = word_of_int \<lfloor>f\<rfloor>"

definition initial_seed :: "vec4 \<Rightarrow> real \<Rightarrow> uint" where
  "initial_seed gl_FragCoord u_time =
     uint_of_float (wx gl_FragCoord) * 1973 + uint_of_float (wy gl_FragCoord) * 9277
       + uint_of_float (u_time * 1000) * 26699"

definition radians :: "real \<Rightarrow> real" where
  "radians d = d * pi / 180"

definition pow3 :: "vec3 \<Rightarrow> vec3 \<Rightarrow> vec3" where
  "pow3 b e = vec3 (vx b powr vx e) (vy b powr vy e) (vz b powr vz e)"

record Uniforms =
  u_camera_pos :: vec3
  u_camera_view :: mat4
  u_time :: real
  u_aspect_ratio :: real

text \<open>\<^verbatim>\<open>void main()\<close>: the result is \<^verbatim>\<open>FragColor\<close>. The built-in \<^verbatim>\<open>inverse\<close> of a
  \<^verbatim>\<open>mat4\<close> is a parameter, \<open>inverse4\<close>.\<close>

definition main ::
  "(mat4 \<Rightarrow> mat4) \<Rightarrow> Scene \<Rightarrow> uninitialised \<Rightarrow> Uniforms \<Rightarrow> vec4 \<Rightarrow> vec2 \<Rightarrow> vec4 option" where
  "main inverse4 sc junk un gl_FragCoord TexCoords =
     (let uv = TexCoords;
          fov_y = 60;
          tan_half_fov = tan (radians fov_y / 2);
          ray_dir = normalize_vec (vec3 ((ux uv * 2 - 1) * u_aspect_ratio un * tan_half_fov)
                                        ((uy uv * 2 - 1) * tan_half_fov) (- 1));
          primary_ray =
            \<lparr>origin = u_camera_pos un,
             direction = xyz (mat4_mul (inverse4 (u_camera_view un))
                                (vec4 (vx ray_dir) (vy ray_dir) (vz ray_dir) 0))\<rparr>
      in case trace sc junk primary_ray (initial_seed gl_FragCoord (u_time un)) of
           None \<Rightarrow> None
         | Some (color, seed', iters) \<Rightarrow>
             (let color' = pow3 color (vec3 (1 / 2.2) (1 / 2.2) (1 / 2.2))
              in Some (vec4 (vx color') (vy color') (vz color') 1)))"

section \<open>Notions used to state the properties\<close>

text \<open>The seed after one draw, and the seed after \<open>k\<close> passes of the body of the
  rejection loop (three draws each).\<close>

definition next_seed :: "uint \<Rightarrow> uint" where
  "next_seed s = snd (random s)"

fun retry_seed :: "nat \<Rightarrow> uint \<Rightarrow> uint" where
  "retry_seed 0 seed = seed"
| "retry_seed (Suc k) seed = retry_seed k (snd (draw_point seed))"

text \<open>The geometric sum \<open>1 + a + \<dots> + a^(n-1)\<close>, in Horner form.\<close>

fun gsum :: "int \<Rightarrow> nat \<Rightarrow> int" where
  "gsum a 0 = 0"
| "gsum a (Suc n) = 1 + a * gsum a n"

text \<open>The quantities of the sphere test (lines 122 to 130) and of the plane test
  (lines 144 to 149), named so that statements can refer to them: the discriminant, the
  smaller and the larger root, the root the test selects, and the record an accepted test
  writes.\<close>

definition sphere_discriminant :: "Ray \<Rightarrow> ObjectData \<Rightarrow> real" where
  "sphere_discriminant r obj =
     (let oc = origin r - xyz (col3 (modelMatrix obj));
          a = dot (direction r) (direction r);
          b = dot oc (direction r);
          c = dot oc oc - radius obj * radius obj
      in b * b - a * c)"

definition sphere_smaller_root :: "Ray \<Rightarrow> ObjectData \<Rightarrow> real" where
  "sphere_smaller_root r obj =
     (let oc = origin r - xyz (col3 (modelMatrix obj));
          a = dot (direction r) (direction r);
          b = dot oc (direction r)
      in (- b - sqrt (sphere_discriminant r obj)) / a)"

definition sphere_larger_root :: "Ray \<Rightarrow> ObjectData \<Rightarrow> real" where
  "sphere_larger_root r obj =
     (let oc = origin r - xyz (col3 (modelMatrix obj));
          a = dot (direction r) (direction r);
          b = dot oc (direction r)
      in (- b + sqrt (sphere_discriminant r obj)) / a)"

definition sphere_root :: "Ray \<Rightarrow> ObjectData \<Rightarrow> real" where
  "sphere_root r obj =
     (if sphere_smaller_root r obj < 0.001 then sphere_larger_root r obj
      else sphere_smaller_root r obj)"

definition sphere_hit :: "Ray \<Rightarrow> HitInfo \<Rightarrow> ObjectData \<Rightarrow> real \<Rightarrow> HitInfo" where
  "sphere_hit r hit_rec obj t1 =
     (let p = origin r + t1 *\<^sub>R direction r;
          outward_normal = normalize_vec (p - xyz (col3 (modelMatrix obj)))
      in (set_face_normal (hit_rec\<lparr>is_hit := True, hit_t := t1, point := p\<rparr>)
            r outward_normal)\<lparr>materialIndex := obj_materialIndex obj\<rparr>)"

definition plane_normal_of :: "ObjectData \<Rightarrow> vec3" where
  "plane_normal_of obj = normalize_vec (xyz (mat4_mul (modelMatrix obj) (vec4 0 1 0 0)))"

definition plane_denom :: "Ray \<Rightarrow> ObjectData \<Rightarrow> real" where
  "plane_denom r obj = dot (plane_normal_of obj) (direction r)"

definition plane_root :: "Ray \<Rightarrow> ObjectData \<Rightarrow> real" where
  "plane_root r obj =
     dot (xyz (col3 (modelMatrix obj)) - origin r) (plane_normal_of obj) / plane_denom r obj"

definition plane_hit :: "Ray \<Rightarrow> HitInfo \<Rightarrow> ObjectData \<Rightarrow> real \<Rightarrow> HitInfo" where
  "plane_hit r hit_rec obj t1 =
     (set_face_normal
        (hit_rec\<lparr>is_hit := True, hit_t := t1, point := origin r + t1 *\<^sub>R direction r\<rparr>)
        r (plane_normal_of obj))\<lparr>materialIndex := obj_materialIndex obj\<rparr>"

text \<open>The test accepts: the branch that writes the record is taken.\<close>

definition sphere_accepts :: "Ray \<Rightarrow> HitInfo \<Rightarrow> ObjectData \<Rightarrow> bool" where
  "sphere_accepts r h obj =
     (0 \<le> sphere_discriminant r obj \<and> 0.001 < sphere_root r obj \<and> sphere_root r obj < hit_t h)"

definition plane_accepts :: "Ray \<Rightarrow> HitInfo \<Rightarrow> ObjectData \<Rightarrow> bool" where
  "plane_accepts r h obj =
     (0.001 < \<bar>plane_denom r obj\<bar> \<and> 0.001 < plane_root r obj \<and> plane_root r obj < hit_t h)"


text \<open>The refraction ratio and the sine of the incidence angle of the glass branch
  (lines 177 to 180).\<close>

definition glass_refraction_ratio :: "MaterialData \<Rightarrow> HitInfo \<Rightarrow> real" where
  "glass_refraction_ratio mat rec =
     (if front_face rec then 1 / wz (properties mat) else wz (properties mat))"

definition glass_sin_theta :: "Ray \<Rightarrow> HitInfo \<Rightarrow> real" where
  "glass_sin_theta r_in rec =
     (let cos_theta = min (dot (- direction r_in) (normal rec)) 1
      in sqrt (1 - cos_theta * cos_theta))"

text \<open>The first \<open>n\<close> values a seed yields.\<close>

fun prng_stream :: "nat \<Rightarrow> uint \<Rightarrow> real list" where
  "prng_stream 0 seed = []"
| "prng_stream (Suc n) seed = (case random seed of (u, seed') \<Rightarrow> u # prng_stream n seed')"

text \<open>Two hit records agree when they have the same \<open>is_hit\<close> and \<open>hit_t\<close> and, if
  they record a hit, are equal: they may differ only in fields that no test has written.\<close>

definition hit_agree :: "HitInfo \<Rightarrow> HitInfo \<Rightarrow> bool" where
  "hit_agree h h' = (is_hit h = is_hit h' \<and> hit_t h = hit_t h' \<and> (is_hit h \<longrightarrow> h = h'))"

text \<open>The sampler as the specification words it, for comparison with the source's: at
  most \<open>n\<close> retries, and after the last one the sample is returned whatever its length
  (``cap retries defensively and fail soft (return the last sample)'').\<close>

fun random_in_unit_sphere_capped :: "nat \<Rightarrow> uint \<Rightarrow> vec3 \<times> uint" where
  "random_in_unit_sphere_capped 0 seed = draw_point seed"
| "random_in_unit_sphere_capped (Suc n) seed =
     (case draw_point seed of (p, seed') \<Rightarrow>
        if dot p p < 1 then (p, seed') else random_in_unit_sphere_capped n seed')"

section \<open>Runs that binary32 computes exactly\<close>

text \<open>
  The shader computes in binary32, the model in exact real arithmetic. Under correctly
  rounded arithmetic an operation whose exact result is a binary32 number returns that
  number. So on a run of a test in which every value that the source computes, in the
  order in which it computes it, is a binary32 number, the shader computes what the model
  computes, except for two things that the statements below name explicitly:

  \<^item> the literal \<^verbatim>\<open>0.001\<close> is not a binary32 number; the shader compares with the
    nearest one, \<open>float_0_001\<close>, which is larger. For a binary32 number \<open>x\<close> the
    comparisons \<open>x < 0.001\<close> and \<open>x < float_0_001\<close> agree, and \<open>0.001 < x\<close> and
    \<open>float_0_001 < x\<close> agree unless \<open>x = float_0_001\<close>;
  \<^item> \<^verbatim>\<open>normalize\<close> of the zero vector divides 0 by 0 in the shader and is not a number,
    while \<open>normalize_vec\<close> returns the zero vector.

  A binary32 number is \<open>m * 2^e\<close> with \<open>\<bar>m\<bar> < 2^24\<close> and \<open>- 149 \<le> e \<le> 104\<close>.
\<close>

definition representable32 :: "real \<Rightarrow> bool" where
  "representable32 x =
     (\<exists>m e :: int. \<bar>m\<bar> < 2 ^ 24 \<and> - 149 \<le> e \<and> e \<le> 104 \<and> x = real_of_int m * 2 powr real_of_int e)"

definition float_0_001 :: real where
  "float_0_001 = 8589935 / 2 ^ 33"

primrec all_representable32 :: "real list \<Rightarrow> bool" where
  "all_representable32 [] = True"
| "all_representable32 (x # xs) = (representable32 x \<and> all_representable32 xs)"

text \<open>The values computed by the built-ins \<^verbatim>\<open>dot\<close> (the products and their sums, in
  either order of summation) and \<^verbatim>\<open>normalize\<close> (the squared length, the length, its
  inverse and the quotient).\<close>

definition vec_values :: "vec3 \<Rightarrow> real list" where
  "vec_values v = [vx v, vy v, vz v]"

definition dot_values :: "vec3 \<Rightarrow> vec3 \<Rightarrow> real list" where
  "dot_values u v =
     [vx u * vx v, vy u * vy v, vz u * vz v,
      vx u * vx v + vy u * vy v, vy u * vy v + vz u * vz v, vx u * vx v + vz u * vz v,
      dot u v]"

definition normalize_values :: "vec3 \<Rightarrow> real list" where
  "normalize_values v =
     dot_values v v @ [vlength v, 1 / vlength v] @ vec_values (normalize_vec v)"

text \<open>The values of one run of \<^verbatim>\<open>intersect_sphere\<close> (lines 122 to 137), inputs
  included: \<^verbatim>\<open>oc\<close>, \<^verbatim>\<open>a\<close>, \<^verbatim>\<open>b\<close>, \<^verbatim>\<open>c\<close>, the discriminant and its square root,
  the smaller root, the larger root when line 130 computes it, the hit point, the vector
  from the centre to it, its normalisation, and the dot product of
  \<^verbatim>\<open>set_face_normal\<close>.\<close>

definition sphere_test_values :: "Ray \<Rightarrow> HitInfo \<Rightarrow> ObjectData \<Rightarrow> real list" where
  "sphere_test_values r hit_rec obj =
     (let centre = xyz (col3 (modelMatrix obj));
          oc = origin r - centre;
          a = dot (direction r) (direction r);
          b = dot oc (direction r);
          c = dot oc oc - radius obj * radius obj;
          discriminant = b * b - a * c;
          t1 = sphere_root r obj;
          p = origin r + t1 *\<^sub>R direction r
      in vec_values (origin r) @ vec_values (direction r) @ vec_values centre
         @ [radius obj, hit_t hit_rec]
         @ vec_values oc @ dot_values (direction r) (direction r) @ dot_values oc (direction r)
         @ dot_values oc oc
         @ [radius obj * radius obj, c, b * b, a * c, discriminant, sqrt discriminant,
            - b - sqrt discriminant, sphere_smaller_root r obj]
         @ (if sphere_smaller_root r obj < 0.001
            then [- b + sqrt discriminant, sphere_larger_root r obj] else [])
         @ vec_values (t1 *\<^sub>R direction r) @ vec_values p @ vec_values (p - centre)
         @ normalize_values (p - centre)
         @ dot_values (direction r) (normalize_vec (p - centre)))"


section \<open>Example data\<close>

text \<open>Objects as the CPU side builds them (\<^verbatim>\<open>getModelMatrix\<close> and \<^verbatim>\<open>getGPUData\<close>,
  lines 286 to 300, with the identity rotation the constructors set), and rays and hit
  records on which the theorems are instantiated. \<open>fresh_hit\<close> is the record at the
  start of a scan, its unwritten fields zero; \<open>axis_ray\<close> looks down the negative Z axis
  from distance 4.\<close>

definition translate :: "vec3 \<Rightarrow> mat4" where
  "translate p = mat4 (vec4 1 0 0 0) (vec4 0 1 0 0) (vec4 0 0 1 0) (vec4 (vx p) (vy p) (vz p) 1)"

definition Sphere :: "vec3 \<Rightarrow> real \<Rightarrow> int \<Rightarrow> ObjectData" where
  "Sphere pos rad matId =
     \<lparr>modelMatrix = translate pos, inverseModelMatrix = translate (- pos),
      obj_materialIndex = matId, obj_type = 0, radius = rad, halfSize = vec3 0 0 0\<rparr>"

definition Plane :: "vec3 \<Rightarrow> int \<Rightarrow> ObjectData" where
  "Plane pos matId =
     \<lparr>modelMatrix = translate pos, inverseModelMatrix = translate (- pos),
      obj_materialIndex = matId, obj_type = 2, radius = 0, halfSize = vec3 0 0 0\<rparr>"

definition fresh_hit :: HitInfo where
  "fresh_hit = \<lparr>is_hit = False, hit_t = 10000, point = vec3 0 0 0, normal = vec3 0 0 0,
                 materialIndex = 0, front_face = False\<rparr>"

definition axis_ray :: Ray where
  "axis_ray = \<lparr>origin = vec3 0 0 4, direction = vec3 0 0 (- 1)\<rparr>"

definition down_ray :: Ray where
  "down_ray = \<lparr>origin = vec3 0 (3 / 2) 4, direction = vec3 0 (- 1) 0\<rparr>"

definition level_ray :: Ray where
  "level_ray = \<lparr>origin = vec3 0 2 4, direction = vec3 0 0 (- 1)\<rparr>"

definition found_hit :: HitInfo where
  "found_hit = \<lparr>is_hit = True, hit_t = 3, point = vec3 0 0 1, normal = vec3 0 0 1,
                 materialIndex = 2, front_face = True\<rparr>"




text \<open>The glass of the repository's scene (index of refraction 1.52), a hit from inside
  it, a ray that meets the surface from inside at a sine of \<open>4/5\<close>, beyond the critical
  angle, and a content for the uninitialised storage.\<close>

definition glass_material :: MaterialData where
  "glass_material = \<lparr>baseColor = vec4 1 1 1 1, properties = vec4 0 0 1.52 0,
                      emission = vec4 0 0 0 1, mat_type = MAT_GLASS\<rparr>"

definition inside_hit :: HitInfo where
  "inside_hit = \<lparr>is_hit = True, hit_t = 1, point = vec3 0 (1 / 2) 0, normal = vec3 0 (- 1) 0,
                  materialIndex = 1, front_face = False\<rparr>"

definition steep_ray :: Ray where
  "steep_ray = \<lparr>origin = vec3 (- 2 / 5) (1 / 5) 0, direction = vec3 (4 / 5) (3 / 5) 0\<rparr>"

definition zero_junk :: uninitialised where
  "zero_junk = \<lparr>junk_hit = fresh_hit, junk_ray = axis_ray\<rparr>"

text \<open>A scene of one sphere whose metal (roughness 0, base colour one half) also
  emits, a second content for the uninitialised storage, and a camera at distance 4 on the
  Z axis (the inverse of its view matrix is the translation by \<open>(0, 0, 4)\<close>).\<close>

definition glowing_metal :: MaterialData where
  "glowing_metal = \<lparr>baseColor = vec4 (1 / 2) (1 / 2) (1 / 2) 1, properties = vec4 1 0 1 0,
                      emission = vec4 1 1 1 1, mat_type = MAT_METAL\<rparr>"

definition glowing_scene :: Scene where
  "glowing_scene = \<lparr>objects = [Sphere (vec3 0 0 0) (1 / 2) 0], materials = (\<lambda>i. glowing_metal)\<rparr>"

definition other_junk :: uninitialised where
  "other_junk = \<lparr>junk_hit = found_hit, junk_ray = down_ray\<rparr>"

definition still_camera :: Uniforms where
  "still_camera = \<lparr>u_camera_pos = vec3 0 0 4, u_camera_view = translate (vec3 0 0 (- 4)),
                     u_time = 0, u_aspect_ratio = 4 / 3\<rparr>"

section \<open>Properties of the generator\<close>

lemma low24_bound: "unat ((w :: uint) AND 0x00FFFFFF) < 0x01000000"
proof -
  have "w AND 0x00FFFFFF \<le> (0x00FFFFFF :: uint)"
    by (rule word_and_le1)
  then have "unat (w AND 0x00FFFFFF) \<le> unat (0x00FFFFFF :: uint)"
    by (simp add: word_le_nat_alt)
  then show ?thesis by simp
qed

text \<open>
  C8. For every 32-bit seed, one draw replaces the seed by
  \<open>seed * 1664525 + 1013904223\<close> in wrap-around arithmetic (as a number: modulo \<open>2^32\<close>),
  and returns the low 24 bits of the new seed divided by \<open>0x01000000\<close>, a value in the
  half-open interval from 0 to 1.
\<close>

theorem random_step_and_range:
  "snd (random seed) = seed * 1664525 + 1013904223
   \<and> unat (snd (random seed)) = (unat seed * 1664525 + 1013904223) mod 2 ^ 32
   \<and> fst (random seed) = real (unat (snd (random seed) AND 0x00FFFFFF)) / 0x01000000
   \<and> 0 \<le> fst (random seed) \<and> fst (random seed) < 1"
proof -
  let ?s = "seed * 1664525 + 1013904223 :: uint"
  have step: "snd (random seed) = ?s"
    by (simp add: random_def Let_def)
  have wrap: "unat ?s = (unat seed * 1664525 + 1013904223) mod 2 ^ 32"
    by (simp add: unat_word_ariths mod_simps)
  have val: "fst (random seed) = real (unat (?s AND 0x00FFFFFF)) / 0x01000000"
    by (simp add: random_def Let_def)
  have "unat (?s AND 0x00FFFFFF) < 0x01000000"
    by (rule low24_bound)
  then have "real (unat (?s AND 0x00FFFFFF)) < 0x01000000"
    by (metis of_nat_less_iff of_nat_numeral)
  then have hi: "fst (random seed) < 1"
    by (simp add: val)
  have lo: "0 \<le> fst (random seed)"
    unfolding val by (rule divide_nonneg_pos, rule of_nat_0_le_iff) simp
  from step wrap val lo hi show ?thesis
    by simp
qed

section \<open>The rejection sampler returns for every seed\<close>

text \<open>The generator \<open>s \<mapsto> 1664525 s + 1013904223\<close> modulo \<open>2^32\<close> has full period,
  and so has its third iterate, which is the step from one pass of the rejection loop to
  the next: from every seed, the passes visit every 32-bit state within \<open>2^32\<close> passes.
  One state whose pass is accepted (the state 0) then bounds the loop.\<close>

lemma gsum_add: "gsum a (m + n) = gsum a m + a ^ m * gsum a n"
  by (induction m) (simp_all add: algebra_simps)

lemma gsum_geom: "(a - 1) * gsum a n = a ^ n - 1"
  by (induction n) (simp_all add: algebra_simps)

lemma gsum_parity: "odd a \<Longrightarrow> even (gsum a n) \<longleftrightarrow> even n"
  by (induction n) simp_all

lemma pow_mod4: "(a::int) mod 4 = 1 \<Longrightarrow> a ^ n mod 4 = 1"
  by (metis mod_mod_trivial one_mod_numeral(1) power_mod power_one)

lemma one_plus_pow: 
  assumes "(a::int) mod 4 = 1" shows "\<exists>q. odd q \<and> 1 + a ^ n = 2 * q"
proof -
  from assms have "a ^ n mod 4 = 1" by (rule pow_mod4)
  then obtain k where "a ^ n = 4 * k + 1"
    by (metis mult_div_mod_eq)
  then have "1 + a ^ n = 2 * (2 * k + 1)" by simp
  moreover have "odd (2 * k + 1)" by simp
  ultimately show ?thesis by blast
qed

lemma gsum_dvd:
  assumes a: "(a::int) mod 4 = 1"
  shows "2 ^ w dvd gsum a n \<Longrightarrow> 2 ^ w dvd n"
proof (induction w arbitrary: n)
  case 0
  then show ?case by simp
next
  case (Suc w)
  from a have oa: "odd a" by presburger
  from Suc.prems have "even (gsum a n)"
    by (metis dvd_trans dvd_triv_left power_Suc)
  with oa have "even n" by (simp add: gsum_parity)
  then obtain j where n: "n = j + j" by (metis dvd_def mult_2)
  obtain q where q: "odd q" "1 + a ^ j = 2 * q"
    using one_plus_pow [OF a] by blast
  have "gsum a n = gsum a j * (1 + a ^ j)"
    by (simp add: n gsum_add algebra_simps)
  then have "gsum a n = 2 * (gsum a j * q)"
    by (simp add: q)
  with Suc.prems have "2 ^ w dvd gsum a j * q"
    by simp
  moreover have "coprime (2 ^ w) q"
    using q(1) by simp
  ultimately have "2 ^ w dvd gsum a j"
    by (simp add: coprime_dvd_mult_left_iff)
  then have "2 ^ w dvd j" by (rule Suc.IH)
  then show ?case by (simp add: n mult_2 [symmetric])
qed

lemma next_seed_eq: "next_seed s = s * 1664525 + 1013904223"
  by (simp add: next_seed_def random_def Let_def)

lemma draw_point_seed: "snd (draw_point s) = (next_seed ^^ 3) s"
  by (simp add: draw_point_def next_seed_def split: prod.splits add: numeral_3_eq_3)

lemma next_seed_closed:
  "(next_seed ^^ n) s = word_of_int (1664525 ^ n * uint s + 1013904223 * gsum 1664525 n)"
  by (induction n) (simp_all add: next_seed_eq algebra_simps)

lemma coprime_pow2_odd: "odd (x::int) \<Longrightarrow> coprime (2 ^ w) x"
  by (simp add: coprime_power_left_iff)

lemma orbit_distinct:
  assumes "m < n" "n < 2 ^ 32"
  shows "(next_seed ^^ (3 * m)) s \<noteq> (next_seed ^^ (3 * n)) s"
proof
  assume eq: "(next_seed ^^ (3 * m)) s = (next_seed ^^ (3 * n)) s"
  define k where "k = n - m"
  let ?a = "1664525 :: int" and ?c = "1013904223 :: int"
  let ?u = "(?a - 1) * uint s + ?c"
  have n: "3 * n = 3 * m + 3 * k" using assms by (simp add: k_def)
  have "(?a ^ (3 * n) * uint s + ?c * gsum ?a (3 * n))
        - (?a ^ (3 * m) * uint s + ?c * gsum ?a (3 * m))
      = ?a ^ (3 * m) * ((?a ^ (3 * k) - 1) * uint s + ?c * gsum ?a (3 * k))"
    unfolding n gsum_add power_add by (simp add: algebra_simps)
  also have "\<dots> = ?a ^ (3 * m) * (gsum ?a (3 * k) * ?u)"
    unfolding gsum_geom [symmetric] by (simp add: algebra_simps)
  finally have diff: "(?a ^ (3 * n) * uint s + ?c * gsum ?a (3 * n))
        - (?a ^ (3 * m) * uint s + ?c * gsum ?a (3 * m))
      = ?a ^ (3 * m) * (gsum ?a (3 * k) * ?u)" .
  from eq have "(word_of_int ((?a ^ (3 * n) * uint s + ?c * gsum ?a (3 * n))
        - (?a ^ (3 * m) * uint s + ?c * gsum ?a (3 * m))) :: uint) = 0"
    unfolding next_seed_closed by simp
  then have "(2::int) ^ LENGTH(32) dvd ?a ^ (3 * m) * (gsum ?a (3 * k) * ?u)"
    unfolding diff by (simp only: word_of_int_eq_0_iff)
  then have "(2::int) ^ 32 dvd ?a ^ (3 * m) * (gsum ?a (3 * k) * ?u)"
    by simp
  moreover have "coprime ((2::int) ^ 32) (?a ^ (3 * m))"
    by (rule coprime_pow2_odd) simp
  ultimately have "(2::int) ^ 32 dvd gsum ?a (3 * k) * ?u"
    by (simp only: coprime_dvd_mult_right_iff)
  moreover have "coprime ((2::int) ^ 32) ?u"
    by (rule coprime_pow2_odd) simp
  ultimately have "(2::int) ^ 32 dvd gsum ?a (3 * k)"
    by (simp only: coprime_dvd_mult_left_iff)
  then have "(2::nat) ^ 32 dvd 3 * k"
    by (rule gsum_dvd [rotated]) simp
  moreover have "coprime ((2::nat) ^ 32) 3"
    by (simp only: coprime_power_left_iff coprime_left_2_iff_odd) simp
  ultimately have "(2::nat) ^ 32 dvd k"
    by (simp only: coprime_dvd_mult_right_iff)
  moreover have "0 < k" "k < 2 ^ 32" using assms by (simp_all add: k_def)
  ultimately show False
    by (meson dvd_imp_le not_less)
qed

lemma orbit_reaches:
  "\<exists>n < 2 ^ 32. (next_seed ^^ (3 * n)) s = target"
proof -
  let ?f = "\<lambda>n. (next_seed ^^ (3 * n)) s"
  let ?A = "{..< (2::nat) ^ 32}"
  have "inj_on ?f ?A"
  proof (rule inj_onI)
    fix m n assume "m \<in> ?A" "n \<in> ?A" "?f m = ?f n"
    then show "m = n"
      using orbit_distinct [of m n s] orbit_distinct [of n m s]
      by (metis lessThan_iff linorder_neqE_nat)
  qed
  then have "card (?f ` ?A) = 2 ^ 32"
    by (simp add: card_image)
  then have "card (?f ` ?A) = card (UNIV :: uint set)"
    by (simp add: card_word)
  then have "?f ` ?A = UNIV"
    by (intro card_subset_eq) simp_all
  then have "target \<in> ?f ` ?A" by simp
  then show ?thesis by auto
qed

lemma accept_at_zero: "dot (fst (draw_point 0)) (fst (draw_point 0)) < 1"
  by (simp add: draw_point_def random_def Let_def dot_def)

lemma retry_seed_orbit: "retry_seed k s = (next_seed ^^ (3 * k)) s"
proof (induction k arbitrary: s)
  case 0
  show ?case by simp
next
  case (Suc k)
  have "3 * Suc k = 3 * k + 3" by simp
  then have "(next_seed ^^ (3 * Suc k)) s = (next_seed ^^ (3 * k)) ((next_seed ^^ 3) s)"
    by (simp only: funpow_add o_apply)
  then show ?case by (simp add: Suc.IH draw_point_seed)
qed

lemma sampler_accepts:
  "random_in_unit_sphere s =
     (if dot (fst (draw_point s)) (fst (draw_point s)) < 1 then Some (draw_point s)
      else random_in_unit_sphere (snd (draw_point s)))"
  by (subst random_in_unit_sphere.simps) (simp split: prod.splits)

lemma sampler_returns:
  "dot (fst (draw_point (retry_seed n s))) (fst (draw_point (retry_seed n s))) < 1 \<Longrightarrow>
   \<exists>k\<le>n. random_in_unit_sphere s = Some (draw_point (retry_seed k s))
     \<and> dot (fst (draw_point (retry_seed k s))) (fst (draw_point (retry_seed k s))) < 1"
proof (induction n arbitrary: s)
  case 0
  then have "random_in_unit_sphere s = Some (draw_point (retry_seed 0 s))"
    by (subst sampler_accepts) simp
  with 0 show ?case by blast
next
  case (Suc n)
  show ?case
  proof (cases "dot (fst (draw_point s)) (fst (draw_point s)) < 1")
    case True
    then have "random_in_unit_sphere s = Some (draw_point (retry_seed 0 s))"
      by (subst sampler_accepts) simp
    with True show ?thesis
      by (metis le0 retry_seed.simps(1))
  next
    case False
    from Suc.prems obtain k where k: "k \<le> n"
      "random_in_unit_sphere (snd (draw_point s)) = Some (draw_point (retry_seed k (snd (draw_point s))))"
      "dot (fst (draw_point (retry_seed k (snd (draw_point s))))) (fst (draw_point (retry_seed k (snd (draw_point s))))) < 1"
      using Suc.IH [of "snd (draw_point s)"] by auto
    from False have "random_in_unit_sphere s = random_in_unit_sphere (snd (draw_point s))"
      by (subst sampler_accepts) simp
    with k have "Suc k \<le> Suc n \<and> random_in_unit_sphere s = Some (draw_point (retry_seed (Suc k) s))
      \<and> dot (fst (draw_point (retry_seed (Suc k) s))) (fst (draw_point (retry_seed (Suc k) s))) < 1"
      by simp
    then show ?thesis by blast
  qed
qed

lemma sampler_total:
  "\<exists>k < 2 ^ 32. random_in_unit_sphere s = Some (draw_point (retry_seed k s))
     \<and> dot (fst (draw_point (retry_seed k s))) (fst (draw_point (retry_seed k s))) < 1"
proof -
  obtain n where n: "n < 2 ^ 32" "(next_seed ^^ (3 * n)) s = 0"
    using orbit_reaches [of s 0] by blast
  then have "retry_seed n s = 0" by (simp add: retry_seed_orbit)
  then have "dot (fst (draw_point (retry_seed n s))) (fst (draw_point (retry_seed n s))) < 1"
    by (simp only: accept_at_zero)
  from sampler_returns [OF this] n(1) show ?thesis
    by (meson le_less_trans)
qed

lemma sampler_some: "\<exists>p s'. random_in_unit_sphere seed = Some (p, s')"
  using sampler_total [of seed] by (metis prod.collapse)

lemma capped_unfold:
  "random_in_unit_sphere_capped (Suc n) s =
     (if dot (fst (draw_point s)) (fst (draw_point s)) < 1 then draw_point s
      else random_in_unit_sphere_capped n (snd (draw_point s)))"
  by (simp split: prod.splits)

lemma capped_agrees:
  "dot (fst (draw_point (retry_seed k s))) (fst (draw_point (retry_seed k s))) < 1 \<Longrightarrow> k \<le> n \<Longrightarrow>
   random_in_unit_sphere s = Some (random_in_unit_sphere_capped n s)"
proof (induction n arbitrary: s k)
  case 0
  then show ?case
    by (subst sampler_accepts) simp
next
  case (Suc n)
  show ?case
  proof (cases "dot (fst (draw_point s)) (fst (draw_point s)) < 1")
    case True
    then show ?thesis
      by (subst sampler_accepts) (simp only: capped_unfold if_True)
  next
    case False
    with Suc.prems obtain k' where k': "k = Suc k'"
      by (cases k) auto
    with Suc.prems have "random_in_unit_sphere (snd (draw_point s))
        = Some (random_in_unit_sphere_capped n (snd (draw_point s)))"
      using Suc.IH [of k' "snd (draw_point s)"] by simp
    with False show ?thesis
      by (subst sampler_accepts) (simp only: capped_unfold if_False)
  qed
qed

lemma sampler_refines_capped:
  "random_in_unit_sphere seed = Some (random_in_unit_sphere_capped (2 ^ 32) seed)"
proof -
  obtain k where "k < 2 ^ 32"
    "dot (fst (draw_point (retry_seed k seed))) (fst (draw_point (retry_seed k seed))) < 1"
    using sampler_total [of seed] by blast
  then show ?thesis
    using capped_agrees [of k seed "2 ^ 32"] by simp
qed

text \<open>
  C5. For every initial seed the rejection sampler returns: there is a number \<open>k\<close> of
  rejected passes, below \<open>2^32\<close>, after which the pass is accepted, the sampler returns
  the point of that pass, and this point has squared length below 1. The number of retries
  is bounded without a counter in the source: the sampler computes what the capped sampler
  of the specification computes with a cap of \<open>2^32\<close> retries, and the cap's fallback
  exit is never taken.
\<close>

theorem random_in_unit_sphere_returns:
  "(\<exists>k < 2 ^ 32.
      random_in_unit_sphere seed = Some (draw_point (retry_seed k seed))
      \<and> dot (fst (draw_point (retry_seed k seed))) (fst (draw_point (retry_seed k seed))) < 1)
   \<and> random_in_unit_sphere seed = Some (random_in_unit_sphere_capped (2 ^ 32) seed)"
  using sampler_total [of seed] sampler_refines_capped [of seed] by blast

section \<open>Properties of the intersection functions\<close>

lemma intersect_sphere_cases:
  "intersect_sphere r h obj =
     (if 0 \<le> sphere_discriminant r obj \<and> 0.001 < sphere_root r obj
         \<and> sphere_root r obj < hit_t h
      then sphere_hit r h obj (sphere_root r obj) else h)"
  unfolding intersect_sphere_def sphere_discriminant_def sphere_root_def
    sphere_smaller_root_def sphere_larger_root_def sphere_hit_def Let_def
  by (simp only: split: if_split) blast

lemma intersect_plane_cases:
  "intersect_plane r h obj =
     (if 0.001 < \<bar>plane_denom r obj\<bar> \<and> 0.001 < plane_root r obj \<and> plane_root r obj < hit_t h
      then plane_hit r h obj (plane_root r obj) else h)"
  unfolding intersect_plane_def plane_denom_def plane_root_def plane_normal_of_def
    plane_hit_def Let_def
  by (simp only: split: if_split) blast

lemma set_face_normal_fields:
  "front_face (set_face_normal h r n) = (dot (direction r) n < 0)"
  "normal (set_face_normal h r n) = (if dot (direction r) n < 0 then n else - n)"
  "is_hit (set_face_normal h r n) = is_hit h"
  "hit_t (set_face_normal h r n) = hit_t h"
  "point (set_face_normal h r n) = point h"
  "materialIndex (set_face_normal h r n) = materialIndex h"
  by (simp_all add: set_face_normal_def Let_def)

lemma dot_uminus_right: "dot u (- v) = - dot u v"
  by (simp add: dot_def uminus_vec3_def)

lemma set_face_normal_against: "dot (direction r) (normal (set_face_normal h r n)) \<le> 0"
  by (simp add: set_face_normal_fields dot_uminus_right)



lemmas vec_simps = dot_def plus_vec3_def minus_vec3_def uminus_vec3_def times_vec3_def
  scaleR_vec3_def zero_vec3_def xyz_def rgb_def mat4_mul_def vlength_def normalize_vec_def

lemmas fixture_simps = translate_def Sphere_def Plane_def fresh_hit_def axis_ray_def down_ray_def

lemma sqrt_quarter: "sqrt (1 / 4) = 1 / 2"
  by (simp add: real_sqrt_divide)

lemma axis_ray_discriminant: "sphere_discriminant axis_ray (Sphere (vec3 0 0 0) (1 / 2) 1) = 1 / 4"
  by (simp add: sphere_discriminant_def fixture_simps vec_simps Let_def)

lemma axis_ray_root: "sphere_root axis_ray (Sphere (vec3 0 0 0) (1 / 2) 1) = 7 / 2"
  by (simp add: sphere_root_def sphere_smaller_root_def sphere_larger_root_def axis_ray_discriminant real_sqrt_divide) (simp add: fixture_simps vec_simps Let_def)








lemma representable32_frac:
  assumes "\<bar>m\<bar> < 2 ^ 24" and "k \<le> 149"
  shows "representable32 (real_of_int m / 2 ^ k)"
proof -
  have "2 powr real_of_int (- int k) = 1 / 2 ^ k"
    by (simp add: powr_minus powr_realpow divide_simps)
  then have "real_of_int m / 2 ^ k = real_of_int m * 2 powr real_of_int (- int k)"
    by simp
  moreover have "- 149 \<le> - int k" "- int k \<le> 104"
    using assms(2) by simp_all
  ultimately show ?thesis
    unfolding representable32_def using assms(1) by blast
qed

lemma representable32_uminus [simp]: "representable32 (- x) \<longleftrightarrow> representable32 x"
proof -
  have "representable32 (- y)" if "representable32 y" for y
  proof -
    from that obtain m e :: int where "\<bar>m\<bar> < 2 ^ 24" "- 149 \<le> e" "e \<le> 104"
      "y = real_of_int m * 2 powr real_of_int e"
      unfolding representable32_def by blast
    then have "\<bar>- m\<bar> < 2 ^ 24 \<and> - 149 \<le> e \<and> e \<le> 104
        \<and> - y = real_of_int (- m) * 2 powr real_of_int e"
      by simp
    then show ?thesis
      unfolding representable32_def by blast
  qed
  from this [of x] this [of "- x"] show ?thesis
    by auto
qed




lemma float_0_001_representable: "representable32 float_0_001"
  unfolding float_0_001_def using representable32_frac [of 8589935 33] by simp

text \<open>No binary32 number lies between 0.001 and \<open>float_0_001\<close>: on binary32 numbers
  other than \<open>float_0_001\<close> the comparisons of the model are those of the shader.\<close>

lemma representable32_threshold:
  assumes rep: "representable32 x"
  shows "(x < 0.001 \<longleftrightarrow> x < float_0_001)
     \<and> (x \<noteq> float_0_001 \<longrightarrow> (0.001 < x \<longleftrightarrow> float_0_001 < x))"
proof -
  have gap: "x < 0.001" if up: "x < float_0_001"
  proof (rule ccontr)
    assume "\<not> x < 0.001"
    then have low: "0.001 \<le> x" by simp
    from rep obtain m e :: int where m: "\<bar>m\<bar> < 2 ^ 24"
      and x: "x = real_of_int m * 2 powr real_of_int e"
      unfolding representable32_def by blast
    show False
    proof (cases "- 33 \<le> e")
      case True
      define k where "k = nat (e + 33)"
      have e: "e = int k - 33"
        using True by (simp add: k_def)
      have "2 powr real_of_int e = (2 :: real) ^ k / 2 ^ 33"
        unfolding e by (simp add: powr_diff powr_realpow)
      with x have "x * 2 ^ 33 = real_of_int (m * 2 ^ k)"
        by simp
      moreover from low have "8589934 < x * 2 ^ 33"
        by simp
      moreover from up have "x * 2 ^ 33 < 8589935"
        by (simp add: float_0_001_def field_simps)
      ultimately have "real_of_int 8589934 < real_of_int (m * 2 ^ k)"
        "real_of_int (m * 2 ^ k) < real_of_int 8589935"
        by simp_all
      then have "8589934 < m * 2 ^ k" "m * 2 ^ k < 8589935"
        by (simp_all only: of_int_less_iff)
      then show False by simp
    next
      case False
      then have "real_of_int e \<le> - 34" by simp
      then have "2 powr real_of_int e \<le> 2 powr (- 34 :: real)"
        by (simp only: powr_le_cancel_iff)
      also have "\<dots> = 1 / 2 ^ 34"
        by (simp add: powr_minus powr_realpow divide_simps)
      finally have p: "2 powr real_of_int e \<le> 1 / 2 ^ 34" .
      have p0: "0 \<le> 2 powr real_of_int e" by simp
      from m have "real_of_int m \<le> 2 ^ 24"
        by (metis abs_le_D1 less_imp_le of_int_le_iff of_int_numeral of_int_power)
      with p p0 have "real_of_int m * 2 powr real_of_int e \<le> 2 ^ 24 * (1 / 2 ^ 34)"
        by (intro mult_mono) simp_all
      with x low show False by simp
    qed
  qed
  from gap have "x < float_0_001 \<longrightarrow> x < 0.001"
    by blast
  moreover have "0.001 < float_0_001"
    by (simp add: float_0_001_def)
  ultimately show ?thesis
    by arith
qed

text \<open>An odd integer above \<open>2^24\<close> is not a binary32 number.\<close>

lemma not_representable32_24999999: "\<not> representable32 24999999"
proof
  assume "representable32 24999999"
  then obtain m e :: int where m: "\<bar>m\<bar> < 2 ^ 24"
    and eq: "(24999999 :: real) = real_of_int m * 2 powr real_of_int e"
    unfolding representable32_def by blast
  show False
  proof (cases "0 \<le> e")
    case True
    then have "2 powr real_of_int e = (2 :: real) ^ nat e"
      by (simp add: powr_real_of_int)
    with eq have "real_of_int (m * 2 ^ nat e) = real_of_int 24999999"
      by simp
    then have i: "m * 2 ^ nat e = 24999999"
      by (simp only: of_int_eq_iff)
    show False
    proof (cases "nat e")
      case 0
      with i m show False by simp
    next
      case (Suc n)
      with i have "even (24999999 :: int)"
        by (metis dvd_triv_left dvd_triv_right dvd_trans power_Suc)
      then show False by simp
    qed
  next
    case False
    then have "2 powr real_of_int e = 1 / (2 :: real) ^ nat (- e)"
      by (simp add: powr_real_of_int field_simps)
    with eq have "real_of_int m = real_of_int (24999999 * 2 ^ nat (- e))"
      by (simp add: field_simps)
    then have i: "m = 24999999 * 2 ^ nat (- e)"
      by (simp only: of_int_eq_iff)
    have "(1 :: int) \<le> 2 ^ nat (- e)" by simp
    then have "(24999999 :: int) \<le> 24999999 * 2 ^ nat (- e)"
      by simp
    with i m show False by simp
  qed
qed













text \<open>
  C10. When a test rejects the ray (sphere: negative discriminant, or the selected root not
  strictly between 0.001 and the current closest \<open>t\<close>; plane: near-parallel direction, or
  \<open>t\<close> outside the same bounds), the returned record is the record passed in: every
  field is as before the call.
\<close>

theorem rejected_test_keeps_record:
  "(sphere_discriminant r obj < 0
      \<or> \<not> (0.001 < sphere_root r obj \<and> sphere_root r obj < hit_t h)
    \<longrightarrow> intersect_sphere r h obj = h)
   \<and> (\<bar>plane_denom r obj\<bar> \<le> 0.001
      \<or> \<not> (0.001 < plane_root r obj \<and> plane_root r obj < hit_t h)
    \<longrightarrow> intersect_plane r h obj = h)"
  by (auto simp add: intersect_sphere_cases intersect_plane_cases)

theorem rejected_test_keeps_record_witness:
  "sphere_discriminant level_ray (Sphere (vec3 0 0 0) (1 / 2) 1) < 0
   \<and> intersect_sphere level_ray found_hit (Sphere (vec3 0 0 0) (1 / 2) 1) = found_hit
   \<and> \<not> (sphere_root axis_ray (Sphere (vec3 0 0 0) (1 / 2) 1) < hit_t found_hit)
   \<and> intersect_sphere axis_ray found_hit (Sphere (vec3 0 0 0) (1 / 2) 1) = found_hit
   \<and> \<bar>plane_denom axis_ray (Plane (vec3 0 (- 1 / 2) 0) 0)\<bar> \<le> 0.001
   \<and> intersect_plane axis_ray found_hit (Plane (vec3 0 (- 1 / 2) 0) 0) = found_hit"
proof -
  have d: "sphere_discriminant level_ray (Sphere (vec3 0 0 0) (1 / 2) 1) < 0"
    by (simp add: sphere_discriminant_def level_ray_def fixture_simps vec_simps Let_def)
  have t: "\<not> (sphere_root axis_ray (Sphere (vec3 0 0 0) (1 / 2) 1) < hit_t found_hit)"
    by (simp add: axis_ray_root found_hit_def)
  have p: "\<bar>plane_denom axis_ray (Plane (vec3 0 (- 1 / 2) 0) 0)\<bar> \<le> 0.001"
    by (simp add: plane_denom_def plane_normal_of_def fixture_simps vec_simps)
  from d t p
    rejected_test_keeps_record [of level_ray "Sphere (vec3 0 0 0) (1 / 2) 1" found_hit]
    rejected_test_keeps_record [of axis_ray "Sphere (vec3 0 0 0) (1 / 2) 1" found_hit]
    rejected_test_keeps_record [of axis_ray "Plane (vec3 0 (- 1 / 2) 0) 0" found_hit]
  show ?thesis by blast
qed

lemma guarded_div_outside: "0.001 < \<bar>d\<bar> \<Longrightarrow> guarded_div n d = Inr (n / d)"
  by (simp add: guarded_div_def)

text \<open>
  C7. The plane test divides by the dot product of plane normal and ray direction only when
  its magnitude exceeds 0.001: the test with the checking division never reports
  \<open>DivisionNearZero\<close> and computes what \<open>intersect_plane\<close> computes; and when the
  magnitude is at most 0.001 the test returns the record unchanged, so no intersection.
\<close>

theorem plane_division_only_outside_guard:
  "intersect_plane_checked r h obj = Inr (intersect_plane r h obj)
   \<and> (\<bar>plane_denom r obj\<bar> \<le> 0.001 \<longrightarrow> intersect_plane_checked r h obj = Inr h)"
proof -
  have "intersect_plane_checked r h obj = Inr (intersect_plane r h obj)"
    by (simp add: intersect_plane_checked_def intersect_plane_def Let_def guarded_div_def)
  moreover have "\<bar>plane_denom r obj\<bar> \<le> 0.001 \<longrightarrow> intersect_plane r h obj = h"
    by (simp add: intersect_plane_cases)
  ultimately show ?thesis by simp
qed

theorem plane_division_only_outside_guard_witness:
  "\<bar>plane_denom axis_ray (Plane (vec3 0 (- 1 / 2) 0) 0)\<bar> \<le> 0.001
   \<and> intersect_plane_checked axis_ray fresh_hit (Plane (vec3 0 (- 1 / 2) 0) 0) = Inr fresh_hit"
proof -
  have p: "\<bar>plane_denom axis_ray (Plane (vec3 0 (- 1 / 2) 0) 0)\<bar> \<le> 0.001"
    by (simp add: plane_denom_def plane_normal_of_def fixture_simps vec_simps)
  with plane_division_only_outside_guard [of axis_ray fresh_hit "Plane (vec3 0 (- 1 / 2) 0) 0"]
  show ?thesis by blast
qed

lemma vec3_eq_iff: "u = v \<longleftrightarrow> vx u = vx v \<and> vy u = vy v \<and> vz u = vz v"
  by (cases u; cases v) simp

lemma vec3_sel [simp]:
  "vx (u + v) = vx u + vx v" "vy (u + v) = vy u + vy v" "vz (u + v) = vz u + vz v"
  "vx (u - v) = vx u - vx v" "vy (u - v) = vy u - vy v" "vz (u - v) = vz u - vz v"
  "vx (- u) = - vx u" "vy (- u) = - vy u" "vz (- u) = - vz u"
  "vx (k *\<^sub>R u) = k * vx u" "vy (k *\<^sub>R u) = k * vy u" "vz (k *\<^sub>R u) = k * vz u"
  "vx (u * v) = vx u * vx v" "vy (u * v) = vy u * vy v" "vz (u * v) = vz u * vz v"
  by (simp_all add: plus_vec3_def minus_vec3_def uminus_vec3_def scaleR_vec3_def times_vec3_def)



lemma scale_scale: "a *\<^sub>R (b *\<^sub>R (u :: vec3)) = (a * b) *\<^sub>R u"
  by (simp add: vec3_eq_iff)


text \<open>At distance 5000 from a sphere of radius 1 the run is not exact: \<^verbatim>\<open>c\<close> is
  \<open>24999999\<close>, which binary32 rounds to \<open>25000000\<close>; the shader then finds the
  discriminant 0 and the root 5000, the centre itself. The statement below leaves such
  runs out.\<close>

lemma aimed_ray_5000_inexact:
  "\<not> all_representable32 (sphere_test_values axis_ray fresh_hit (Sphere (vec3 0 0 (- 4996)) 1 1))"
  by (simp add: sphere_test_values_def vec_values_def dot_values_def Let_def fixture_simps
      vec_simps not_representable32_24999999)




section \<open>Properties of the material logic\<close>

lemma dot_reflect:
  "dot (v - k *\<^sub>R n) (v - k *\<^sub>R n) = dot v v - 2 * k * dot v n + k * k * dot n n"
  by (simp add: dot_def algebra_simps)

lemma reflect_keeps_length: "dot n n = 1 \<Longrightarrow> dot (reflect v n) (reflect v n) = dot v v"
  by (simp add: reflect_def dot_reflect)

lemma normalize_unit: "dot v v = 1 \<Longrightarrow> normalize_vec v = v"
  by (simp add: normalize_vec_def vlength_def vec3_eq_iff)

lemma material_tags_distinct:
  "MAT_GLASS \<noteq> MAT_LAMBERTIAN" "MAT_GLASS \<noteq> MAT_METAL"
  "MAT_METAL \<noteq> MAT_LAMBERTIAN" "MAT_EMISSIVE \<noteq> MAT_LAMBERTIAN"
  "MAT_EMISSIVE \<noteq> MAT_METAL" "MAT_EMISSIVE \<noteq> MAT_GLASS"
  by (simp_all add: MAT_GLASS_def MAT_LAMBERTIAN_def MAT_METAL_def MAT_EMISSIVE_def)

lemma sqrt_16_25: "sqrt (16 / 25) = 4 / 5"
proof -
  have "sqrt ((4 / 5) ^ 2) = \<bar>4 / 5 :: real\<bar>"
    by (rule real_sqrt_abs)
  then show ?thesis
    by (simp add: power2_eq_square)
qed

lemma dot_diff_scale: "dot (v - k *\<^sub>R n) n = dot v n - k * dot n n"
  by (simp add: dot_def algebra_simps)

lemma dot_mirror: "dot n n = 1 \<Longrightarrow> dot (v - (2 * dot v n) *\<^sub>R n) n = - dot v n"
  by (simp add: dot_diff_scale)

lemma dot_self_nonneg: "0 \<le> dot v v"
  by (simp add: dot_def)

text \<open>On the example the refraction would leave the glass (its component along the
  normal keeps the sign of the incoming one), the reflection turns back into it.\<close>

lemma refract_bends_back:
  "0 \<le> vy (normalize_vec (refract (direction steep_ray) (normal inside_hit)
      (glass_refraction_ratio glass_material inside_hit)))"
proof -
  let ?v = "refract (direction steep_ray) (normal inside_hit)
      (glass_refraction_ratio glass_material inside_hit)"
  have "0 \<le> vy ?v"
    by (simp add: refract_def Let_def steep_ray_def inside_hit_def glass_refraction_ratio_def
        glass_material_def vec_simps)
  moreover have "0 \<le> 1 / vlength ?v"
    by (simp add: vlength_def dot_self_nonneg)
  ultimately show ?thesis
    by (simp add: normalize_vec_def)
qed

text \<open>
  C6. For a glass material, whenever \<open>refraction_ratio * sin_theta > 1\<close> (the ratio
  being \<open>1 / ior\<close> on a front face and \<open>ior\<close> otherwise), \<open>scatter\<close> returns true, no
  random value is drawn, and the scattered ray leaves the hit point in the direction
  \<open>d - 2 (d \<cdot> n) n\<close>, normalised as every scattered direction is, where \<open>d\<close> is the
  incoming direction and \<open>n\<close> the stored normal. For a unit direction and a unit normal
  this is the mirror image of \<open>d\<close> itself: a unit vector whose component along \<open>n\<close> is
  the opposite of that of \<open>d\<close>. It is the reflection, never the refraction.
\<close>

theorem glass_total_internal_reflection:
  assumes glass: "mat_type (mats (materialIndex rec)) = MAT_GLASS"
    and tir: "glass_refraction_ratio (mats (materialIndex rec)) rec * glass_sin_theta r_in rec > 1"
  shows "scatter mats junk r_in rec seed =
           Some ((True, rgb (baseColor (mats (materialIndex rec))),
                  \<lparr>origin = point rec,
                   direction = normalize_vec
                     (direction r_in - (2 * dot (direction r_in) (normal rec)) *\<^sub>R normal rec)\<rparr>),
                 seed)
         \<and> (dot (direction r_in) (direction r_in) = 1 \<and> dot (normal rec) (normal rec) = 1 \<longrightarrow>
              normalize_vec
                (direction r_in - (2 * dot (direction r_in) (normal rec)) *\<^sub>R normal rec)
                = direction r_in - (2 * dot (direction r_in) (normal rec)) *\<^sub>R normal rec
              \<and> dot (direction r_in - (2 * dot (direction r_in) (normal rec)) *\<^sub>R normal rec)
                    (normal rec) = - dot (direction r_in) (normal rec))"
proof
  from tir show "scatter mats junk r_in rec seed =
           Some ((True, rgb (baseColor (mats (materialIndex rec))),
                  \<lparr>origin = point rec,
                   direction = normalize_vec
                     (direction r_in - (2 * dot (direction r_in) (normal rec)) *\<^sub>R normal rec)\<rparr>),
                 seed)"
    by (simp add: scatter_def glass material_tags_distinct Let_def glass_refraction_ratio_def
        glass_sin_theta_def reflect_def)
next
  show "dot (direction r_in) (direction r_in) = 1 \<and> dot (normal rec) (normal rec) = 1 \<longrightarrow>
              normalize_vec
                (direction r_in - (2 * dot (direction r_in) (normal rec)) *\<^sub>R normal rec)
                = direction r_in - (2 * dot (direction r_in) (normal rec)) *\<^sub>R normal rec
              \<and> dot (direction r_in - (2 * dot (direction r_in) (normal rec)) *\<^sub>R normal rec)
                    (normal rec) = - dot (direction r_in) (normal rec)"
    using reflect_keeps_length [of "normal rec" "direction r_in"]
    by (simp add: normalize_unit reflect_def dot_mirror)
qed

theorem glass_total_internal_reflection_witness:
  "mat_type ((\<lambda>i. glass_material) (materialIndex inside_hit)) = MAT_GLASS
   \<and> glass_refraction_ratio ((\<lambda>i. glass_material) (materialIndex inside_hit)) inside_hit
       * glass_sin_theta steep_ray inside_hit > 1
   \<and> dot (direction steep_ray) (direction steep_ray) = 1
   \<and> dot (normal inside_hit) (normal inside_hit) = 1
   \<and> scatter (\<lambda>i. glass_material) zero_junk steep_ray inside_hit 7
       = Some ((True, vec3 1 1 1,
                \<lparr>origin = vec3 0 (1 / 2) 0, direction = vec3 (4 / 5) (- (3 / 5)) 0\<rparr>), 7)
   \<and> direction steep_ray = vec3 (4 / 5) (3 / 5) 0
   \<and> dot (vec3 (4 / 5) (- (3 / 5)) 0) (normal inside_hit)
       = - dot (direction steep_ray) (normal inside_hit)
   \<and> normalize_vec (refract (direction steep_ray) (normal inside_hit)
        (glass_refraction_ratio glass_material inside_hit)) \<noteq> vec3 (4 / 5) (- (3 / 5)) 0"
proof -
  have g: "mat_type ((\<lambda>i. glass_material) (materialIndex inside_hit)) = MAT_GLASS"
    by (simp add: glass_material_def)
  have t: "glass_refraction_ratio ((\<lambda>i. glass_material) (materialIndex inside_hit)) inside_hit
       * glass_sin_theta steep_ray inside_hit > 1"
    by (simp add: glass_refraction_ratio_def glass_sin_theta_def glass_material_def inside_hit_def
        steep_ray_def vec_simps sqrt_16_25)
  have d: "dot (direction steep_ray) (direction steep_ray) = 1"
    "dot (normal inside_hit) (normal inside_hit) = 1"
    by (simp_all add: steep_ray_def inside_hit_def vec_simps)
  have r: "direction steep_ray
      - (2 * dot (direction steep_ray) (normal inside_hit)) *\<^sub>R normal inside_hit
      = vec3 (4 / 5) (- (3 / 5)) 0"
    by (simp add: steep_ray_def inside_hit_def vec_simps)
  have c: "rgb (baseColor glass_material) = vec3 1 1 1" "point inside_hit = vec3 0 (1 / 2) 0"
    "direction steep_ray = vec3 (4 / 5) (3 / 5) 0"
    by (simp_all add: glass_material_def inside_hit_def steep_ray_def vec_simps)
  have ne: "normalize_vec (refract (direction steep_ray) (normal inside_hit)
        (glass_refraction_ratio glass_material inside_hit)) \<noteq> vec3 (4 / 5) (- (3 / 5)) 0"
    using refract_bends_back by (auto simp add: vec3_eq_iff)
  note inst = glass_total_internal_reflection [OF g t, of zero_junk 7]
  from inst d have s: "scatter (\<lambda>i. glass_material) zero_junk steep_ray inside_hit 7
       = Some ((True, vec3 1 1 1,
                \<lparr>origin = vec3 0 (1 / 2) 0, direction = vec3 (4 / 5) (- (3 / 5)) 0\<rparr>), 7)"
    by (simp add: r c(1) c(2))
  from inst d have m: "dot (vec3 (4 / 5) (- (3 / 5)) 0) (normal inside_hit)
       = - dot (direction steep_ray) (normal inside_hit)"
    by (simp add: r)
  from g t d s c(3) m ne show ?thesis
    by (simp only: simp_thms)
qed

section \<open>Properties of the tracing loop\<close>

lemma scatter_total: "\<exists>res s'. scatter mats junk r_in rec seed = Some (res, s')"
proof -
  obtain p s' where "random_in_unit_sphere seed = Some (p, s')"
    using sampler_some by blast
  then show ?thesis
    by (auto simp add: scatter_def Let_def split: prod.splits)
qed

lemma trace_body_total: "\<exists>step. trace_body sc junk r final_color attenuation seed = Some step"
proof -
  obtain res s' where "scatter (materials sc) junk r
      (scan_objects (objects sc) r ((junk_hit junk)\<lparr>is_hit := False, hit_t := 10000\<rparr>)) seed
      = Some (res, s')"
    using scatter_total by blast
  then show ?thesis
    by (cases res) (simp add: trace_body_def Let_def)
qed

lemma trace_loop_bound:
  "\<exists>color seed' n. trace_loop sc junk depth r final_color attenuation seed iters
       = Some (color, seed', n)
     \<and> n \<le> iters + nat (MAX_DEPTH - depth)"
proof (induction sc junk depth r final_color attenuation seed iters rule: trace_loop.induct)
  case (1 sc junk depth r final_color attenuation seed iters)
  show ?case
  proof (cases "depth < MAX_DEPTH")
    case False
    then show ?thesis by (simp add: trace_loop.simps)
  next
    case True
    obtain step where step: "trace_body sc junk r final_color attenuation seed = Some step"
      using trace_body_total by blast
    show ?thesis
    proof (cases step)
      case (Break c s)
      with True step show ?thesis by (simp add: trace_loop.simps [of sc junk depth])
    next
      case (Continue r' c a s)
      from "1.IH" [OF True step Continue]
      obtain color seed' n where
        "trace_loop sc junk (depth + 1) r' c a s (iters + 1) = Some (color, seed', n)"
        "n \<le> iters + 1 + nat (MAX_DEPTH - (depth + 1))"
        by blast
      with True step Continue show ?thesis
        by (simp add: trace_loop.simps [of sc junk depth])
    qed
  qed
qed

text \<open>
  C3. For every scene, primary ray, seed and content of uninitialised storage, \<open>trace\<close>
  returns, and the bounce loop makes at most \<open>MAX_DEPTH = 8\<close> passes (a scan of all
  objects and a scatter each). A loop that reaches depth \<open>MAX_DEPTH\<close> stops and returns
  the colour accumulated so far as it is, with no error.
\<close>

theorem trace_at_most_max_depth_passes:
  "MAX_DEPTH = 8
   \<and> (\<exists>color seed' n. trace sc junk r seed = Some (color, seed', n) \<and> n \<le> 8)
   \<and> trace_loop sc junk MAX_DEPTH r' final_color attenuation seed0 iters
       = Some (final_color, seed0, iters)"
proof -
  obtain color seed' n where
    "trace_loop sc junk 0 r (vec3 0 0 0) (vec3 1 1 1) seed 0 = Some (color, seed', n)"
    "n \<le> 0 + nat (MAX_DEPTH - 0)"
    using trace_loop_bound [of sc junk 0 r "vec3 0 0 0" "vec3 1 1 1" seed 0] by blast
  then have "\<exists>color seed' n. trace sc junk r seed = Some (color, seed', n) \<and> n \<le> 8"
    by (simp add: trace_def MAX_DEPTH_def)
  moreover have "trace_loop sc junk MAX_DEPTH r' final_color attenuation seed0 iters
       = Some (final_color, seed0, iters)"
    by (simp add: trace_loop.simps)
  ultimately show ?thesis
    by (simp add: MAX_DEPTH_def)
qed

lemma sampler_at_zero: "random_in_unit_sphere 0 = Some (fst (draw_point 0), 3519870697)"
proof -
  have "snd (draw_point 0) = 3519870697"
    by (simp add: draw_point_def random_def Let_def)
  then have "draw_point 0 = (fst (draw_point 0), 3519870697)"
    by (metis prod.collapse)
  moreover have "random_in_unit_sphere 0 = Some (draw_point 0)"
    by (subst sampler_accepts) (simp add: accept_at_zero)
  ultimately show ?thesis by simp
qed

lemma glowing_first_hit:
  "scan_objects (objects glowing_scene) axis_ray ((junk_hit zero_junk)\<lparr>is_hit := False, hit_t := 10000\<rparr>)
     = \<lparr>is_hit = True, hit_t = 7 / 2, point = vec3 0 0 (1 / 2), normal = vec3 0 0 1,
        materialIndex = 0, front_face = True\<rparr>"
  by (simp add: glowing_scene_def zero_junk_def intersect_sphere_def Let_def set_face_normal_def
      fixture_simps vec_simps real_sqrt_divide)

lemma glowing_scatter:
  "scatter (materials glowing_scene) zero_junk axis_ray
     \<lparr>is_hit = True, hit_t = 7 / 2, point = vec3 0 0 (1 / 2), normal = vec3 0 0 1,
        materialIndex = 0, front_face = True\<rparr> 0
   = Some ((True, vec3 (1 / 2) (1 / 2) (1 / 2),
            \<lparr>origin = vec3 0 0 (1 / 2), direction = vec3 0 0 1\<rparr>), 3519870697)"
  by (simp add: scatter_def glowing_scene_def glowing_metal_def material_tags_distinct Let_def
      sampler_at_zero reflect_def axis_ray_def vec_simps)

lemma glowing_first_pass:
  "trace_body glowing_scene zero_junk axis_ray (vec3 0 0 0) (vec3 1 1 1) 0
     = Some (Continue \<lparr>origin = vec3 0 0 (1 / 2), direction = vec3 0 0 1\<rparr>
               (vec3 (1 / 2) (1 / 2) (1 / 2)) (vec3 (1 / 2) (1 / 2) (1 / 2)) 3519870697)"
  unfolding trace_body_def Let_def glowing_first_hit
  by (simp add: glowing_scatter) (simp add: glowing_scene_def glowing_metal_def vec_simps)

lemma glowing_second_hit:
  "scan_objects (objects glowing_scene) \<lparr>origin = vec3 0 0 (1 / 2), direction = vec3 0 0 1\<rparr>
       ((junk_hit zero_junk)\<lparr>is_hit := False, hit_t := 10000\<rparr>)
     = (junk_hit zero_junk)\<lparr>is_hit := False, hit_t := 10000\<rparr>"
  by (simp add: glowing_scene_def zero_junk_def intersect_sphere_def Let_def
      fixture_simps vec_simps real_sqrt_divide)

lemma glowing_second_pass:
  "trace_body glowing_scene zero_junk \<lparr>origin = vec3 0 0 (1 / 2), direction = vec3 0 0 1\<rparr>
     (vec3 (1 / 2) (1 / 2) (1 / 2)) (vec3 (1 / 2) (1 / 2) (1 / 2)) 3519870697
     = Some (Break (vec3 (7 / 8) (37 / 40) 1) 3519870697)"
  unfolding trace_body_def Let_def glowing_second_hit
  by (simp add: mix_def vec_simps)

text \<open>
  C1. The code at a failing input: a unit ray hits a sphere whose metal scatters, has base
  colour one half and emission 1. The emission times the attenuation accumulated from
  previous bounces is \<open>(1, 1, 1)\<close>, and C1 says this is what is added; the pass adds
  \<open>(1/2, 1/2, 1/2)\<close>, the emission times the attenuation already multiplied by this
  bounce's base colour. The returned colour is \<open>(7/8, 37/40, 1)\<close> accordingly (the
  second pass misses and adds half the background).
\<close>

theorem emission_scaled_by_attenuation_of_same_bounce:
  "rgb (emission (materials glowing_scene 0)) * vec3 1 1 1 = vec3 1 1 1
   \<and> trace_body glowing_scene zero_junk axis_ray (vec3 0 0 0) (vec3 1 1 1) 0
       = Some (Continue \<lparr>origin = vec3 0 0 (1 / 2), direction = vec3 0 0 1\<rparr>
                 (vec3 (1 / 2) (1 / 2) (1 / 2)) (vec3 (1 / 2) (1 / 2) (1 / 2)) 3519870697)
   \<and> trace glowing_scene zero_junk axis_ray 0 = Some (vec3 (7 / 8) (37 / 40) 1, 3519870697, 2)"
proof -
  have "rgb (emission (materials glowing_scene 0)) * vec3 1 1 1 = vec3 1 1 1"
    by (simp add: glowing_scene_def glowing_metal_def vec_simps)
  moreover have "trace glowing_scene zero_junk axis_ray 0
      = Some (vec3 (7 / 8) (37 / 40) 1, 3519870697, 2)"
    by (simp add: trace_def trace_loop.simps MAX_DEPTH_def glowing_first_pass
        glowing_second_pass)
  ultimately show ?thesis
    by (simp add: glowing_first_pass)
qed

section \<open>Determinism\<close>

lemma sphere_hit_overwrites: "sphere_hit r h obj t1 = sphere_hit r h' obj t1"
  by (cases h; cases h') (simp add: sphere_hit_def set_face_normal_def Let_def)

lemma plane_hit_overwrites: "plane_hit r h obj t1 = plane_hit r h' obj t1"
  by (cases h; cases h') (simp add: plane_hit_def set_face_normal_def Let_def)

lemma intersect_sphere_accepts:
  "intersect_sphere r h obj =
     (if sphere_accepts r h obj then sphere_hit r h obj (sphere_root r obj) else h)"
  by (simp only: intersect_sphere_cases sphere_accepts_def)

lemma intersect_plane_accepts:
  "intersect_plane r h obj =
     (if plane_accepts r h obj then plane_hit r h obj (plane_root r obj) else h)"
  by (simp only: intersect_plane_cases plane_accepts_def)

lemma intersect_sphere_agree:
  assumes "hit_agree h h'"
  shows "hit_agree (intersect_sphere r h obj) (intersect_sphere r h' obj)"
proof (cases "sphere_accepts r h obj")
  case True
  with assms have "sphere_accepts r h' obj"
    by (simp add: sphere_accepts_def hit_agree_def)
  with True have "intersect_sphere r h obj = sphere_hit r h obj (sphere_root r obj)"
    "intersect_sphere r h' obj = sphere_hit r h' obj (sphere_root r obj)"
    by (simp_all only: intersect_sphere_accepts if_True)
  then show ?thesis
    using sphere_hit_overwrites [of r h obj "sphere_root r obj" h']
    by (simp add: hit_agree_def)
next
  case False
  with assms have "\<not> sphere_accepts r h' obj"
    by (simp add: sphere_accepts_def hit_agree_def)
  with False have "intersect_sphere r h obj = h" "intersect_sphere r h' obj = h'"
    by (simp_all only: intersect_sphere_accepts if_False)
  with assms show ?thesis
    by simp
qed

lemma intersect_plane_agree:
  assumes "hit_agree h h'"
  shows "hit_agree (intersect_plane r h obj) (intersect_plane r h' obj)"
proof (cases "plane_accepts r h obj")
  case True
  with assms have "plane_accepts r h' obj"
    by (simp add: plane_accepts_def hit_agree_def)
  with True have "intersect_plane r h obj = plane_hit r h obj (plane_root r obj)"
    "intersect_plane r h' obj = plane_hit r h' obj (plane_root r obj)"
    by (simp_all only: intersect_plane_accepts if_True)
  then show ?thesis
    using plane_hit_overwrites [of r h obj "plane_root r obj" h']
    by (simp add: hit_agree_def)
next
  case False
  with assms have "\<not> plane_accepts r h' obj"
    by (simp add: plane_accepts_def hit_agree_def)
  with False have "intersect_plane r h obj = h" "intersect_plane r h' obj = h'"
    by (simp_all only: intersect_plane_accepts if_False)
  with assms show ?thesis
    by simp
qed

lemma scan_objects_agree:
  "hit_agree h h' \<Longrightarrow> hit_agree (scan_objects objs r h) (scan_objects objs r h')"
  by (induction objs arbitrary: h h') (simp_all add: intersect_sphere_agree intersect_plane_agree)

lemma fresh_records_agree:
  "hit_agree (j\<lparr>is_hit := False, hit_t := 10000\<rparr>) (j'\<lparr>is_hit := False, hit_t := 10000\<rparr>)"
  by (simp add: hit_agree_def)

lemma scatter_junk:
  "scatter mats junk r_in rec seed = Some ((True, a, sc), s)
     \<Longrightarrow> scatter mats junk' r_in rec seed = Some ((True, a, sc), s)"
  "scatter mats junk r_in rec seed = Some ((False, a, sc), s)
     \<Longrightarrow> \<exists>sc'. scatter mats junk' r_in rec seed = Some ((False, a, sc'), s)"
  "scatter mats junk r_in rec seed = None \<Longrightarrow> scatter mats junk' r_in rec seed = None"
  by (auto simp add: scatter_def Let_def split: if_splits option.splits prod.splits)

lemma trace_body_junk:
  "trace_body sc junk r final_color attenuation seed
     = trace_body sc junk' r final_color attenuation seed"
proof -
  let ?h = "scan_objects (objects sc) r ((junk_hit junk)\<lparr>is_hit := False, hit_t := 10000\<rparr>)"
  let ?h' = "scan_objects (objects sc) r ((junk_hit junk')\<lparr>is_hit := False, hit_t := 10000\<rparr>)"
  have agree: "hit_agree ?h ?h'"
    by (rule scan_objects_agree) (rule fresh_records_agree)
  show ?thesis
  proof (cases "is_hit ?h")
    case False
    with agree have "\<not> is_hit ?h'" by (simp add: hit_agree_def)
    with False show ?thesis
      by (simp add: trace_body_def Let_def)
  next
    case True
    with agree have same: "?h' = ?h" and hit': "is_hit ?h'"
      by (simp_all add: hit_agree_def)
    show ?thesis
    proof (cases "scatter (materials sc) junk r ?h seed")
      case None
      then have "scatter (materials sc) junk' r ?h seed = None"
        by (rule scatter_junk)
      with None True show ?thesis
        by (simp add: trace_body_def Let_def same)
    next
      case (Some res)
      obtain did a scd s where res: "res = ((did, a, scd), s)"
        by (metis prod.collapse)
      show ?thesis
      proof (cases did)
        case True
        with Some res have "scatter (materials sc) junk r ?h seed = Some ((True, a, scd), s)"
          by simp
        then have "scatter (materials sc) junk' r ?h seed = Some ((True, a, scd), s)"
          by (rule scatter_junk(1))
        with Some res True \<open>is_hit ?h\<close> show ?thesis
          by (simp add: trace_body_def Let_def same)
      next
        case False
        with Some res have "scatter (materials sc) junk r ?h seed = Some ((False, a, scd), s)"
          by simp
        then obtain scd' where
          "scatter (materials sc) junk' r ?h seed = Some ((False, a, scd'), s)"
          using scatter_junk(2) by blast
        with Some res False \<open>is_hit ?h\<close> show ?thesis
          by (simp add: trace_body_def Let_def same)
      qed
    qed
  qed
qed

lemma trace_loop_junk:
  "trace_loop sc junk depth r final_color attenuation seed iters
     = trace_loop sc junk' depth r final_color attenuation seed iters"
proof (induction sc junk depth r final_color attenuation seed iters rule: trace_loop.induct)
  case (1 sc junk depth r final_color attenuation seed iters)
  show ?case
  proof (cases "depth < MAX_DEPTH")
    case False
    then show ?thesis by (simp add: trace_loop.simps)
  next
    case True
    note body = trace_body_junk [of sc junk r final_color attenuation seed junk']
    show ?thesis
    proof (cases "trace_body sc junk r final_color attenuation seed")
      case None
      with True body show ?thesis
        by (simp add: trace_loop.simps [of sc _ depth])
    next
      case (Some step)
      show ?thesis
      proof (cases step)
        case (Break c s)
        with True Some body show ?thesis
          by (simp add: trace_loop.simps [of sc _ depth])
      next
        case (Continue r' c a s)
        from "1.IH" [OF True Some Continue] True Some Continue body
        show ?thesis by (simp add: trace_loop.simps [of sc _ depth])
      qed
    qed
  qed
qed

lemma initial_seed_xy:
  "wx fc = wx fc' \<Longrightarrow> wy fc = wy fc' \<Longrightarrow> initial_seed fc time = initial_seed fc' time"
  by (simp add: initial_seed_def)

lemma trace_returns: "\<exists>color seed' n. trace sc junk r seed = Some (color, seed', n)"
  using trace_loop_bound [of sc junk 0 r "vec3 0 0 0" "vec3 1 1 1" seed 0]
  unfolding trace_def by blast

lemma main_returns: "\<exists>color. main inverse4 sc junk un fc tc = Some color"
proof -
  have "\<exists>y. (case res of None \<Rightarrow> None | Some (c, s, n) \<Rightarrow> Some (f c)) = Some y"
    if "\<exists>color seed' n. res = Some (color, seed', n)"
    for res :: "(vec3 \<times> uint \<times> nat) option" and f :: "vec3 \<Rightarrow> vec4"
    using that by auto
  note returns = this [OF trace_returns]
  show ?thesis
    unfolding main_def Let_def by (rule returns)
qed

text \<open>
  C2. The per-pixel computation is deterministic. Two invocations of \<open>main\<close> for the same
  pixel coordinates (the \<open>x\<close> and \<open>y\<close> of \<^verbatim>\<open>gl_FragCoord\<close> and the texture
  coordinates), time, scene and camera both return, and return the same colour, whatever
  the uninitialised storage of either holds and whatever the remaining components of
  \<^verbatim>\<open>gl_FragCoord\<close> are; and the two seeds yield the same sequence of random values.
\<close>

theorem per_pixel_deterministic:
  assumes "wx fc = wx fc'" and "wy fc = wy fc'"
  shows "(\<exists>color. main inverse4 sc junk un fc tc = Some color
                \<and> main inverse4 sc junk' un fc' tc = Some color)
         \<and> (\<forall>n. prng_stream n (initial_seed fc (u_time un))
                 = prng_stream n (initial_seed fc' (u_time un)))"
proof -
  have seed: "initial_seed fc (u_time un) = initial_seed fc' (u_time un)"
    using assms by (rule initial_seed_xy)
  have "main inverse4 sc junk un fc tc = main inverse4 sc junk' un fc' tc"
    by (simp add: main_def trace_def seed trace_loop_junk [of sc junk _ _ _ _ _ _ junk'])
  with main_returns [of inverse4 sc junk un fc tc] seed show ?thesis
    by auto
qed

theorem per_pixel_deterministic_witness:
  "wx (vec4 (1 / 2) (1 / 2) 0 1) = wx (vec4 (1 / 2) (1 / 2) (1 / 2) 1)
   \<and> wy (vec4 (1 / 2) (1 / 2) 0 1) = wy (vec4 (1 / 2) (1 / 2) (1 / 2) 1)
   \<and> (\<exists>color.
        main (\<lambda>m. translate (vec3 0 0 4)) glowing_scene zero_junk still_camera (vec4 (1 / 2) (1 / 2) 0 1)
            (vec2 (1 / 2) (1 / 2)) = Some color
        \<and> main (\<lambda>m. translate (vec3 0 0 4)) glowing_scene other_junk still_camera (vec4 (1 / 2) (1 / 2) (1 / 2) 1)
            (vec2 (1 / 2) (1 / 2)) = Some color)
   \<and> prng_stream 2 (initial_seed (vec4 (1 / 2) (1 / 2) 0 1) (u_time still_camera))
       = prng_stream 2 (initial_seed (vec4 (1 / 2) (1 / 2) (1 / 2) 1) (u_time still_camera))"
proof -
  have xy: "wx (vec4 (1 / 2) (1 / 2) 0 1) = wx (vec4 (1 / 2) (1 / 2) (1 / 2) 1)"
    "wy (vec4 (1 / 2) (1 / 2) 0 1) = wy (vec4 (1 / 2) (1 / 2) (1 / 2) 1)"
    by simp_all
  from per_pixel_deterministic [OF xy, of "\<lambda>m. translate (vec3 0 0 4)" glowing_scene zero_junk still_camera
      "vec2 (1 / 2) (1 / 2)" other_junk]
  show ?thesis
    using xy by blast
qed

end
